theory Spec2Isabelle
  imports Main "HOL-Library.Word"
begin

unbundle bit_operations_syntax

section \<open>VirtualDisplaySurface: data model\<close>

text \<open>
  A shallow embedding of
  \<^verbatim>\<open>services/surfaceflinger/DisplayHardware/VirtualDisplaySurface.cpp\<close>.
  Member functions become functions on a record of the object's fields. Everything the
  file calls but does not define (the two buffer sources, the hardware composer, the
  ConsumerBase base class, the clock) is an oracle of the environment record \<open>env\<close>
  acting on an abstract world \<open>'w\<close>; every such call is also appended to the list
  \<open>calls\<close>, so that "which calls were made" is a statement about a list. Constants that
  are declared in headers (\<open>NUM_BUFFER_SLOTS\<close>, the status codes and flags, the numeric
  values of the \<open>Source\<close> enumerators) are fields of \<open>env\<close> as well.
  Where C++ leaves the behaviour undefined (an array read out of bounds, a shift by a
  negative amount or by 32 and more) the model returns \<open>Inl UndefinedBehaviour\<close>.
\<close>

type_synonym u32 = "32 word"

text \<open>\<open>status_t\<close> is \<open>int32_t\<close>: a negative value is an error, and
  \<open>result < 0\<close> of the source is the signed comparison \<open><s\<close>.\<close>
type_synonym status_t = "32 word"

datatype Source = SOURCE_SINK | SOURCE_SCRATCH

datatype CompositionType =
  COMPOSITION_UNKNOWN | COMPOSITION_GLES | COMPOSITION_HWC | COMPOSITION_MIXED

datatype DbgState =
  DBG_STATE_IDLE | DBG_STATE_PREPARED | DBG_STATE_GLES | DBG_STATE_GLES_DONE | DBG_STATE_HWC

text \<open>\<open>sp<Fence>\<close>: null (\<open>None\<close>), the shared \<open>Fence::NO_FENCE\<close> object, or
  some other fence object. \<open>sp<GraphicBuffer>\<close>: null or a buffer object.\<close>
datatype fence = NO_FENCE | Fence nat
type_synonym fence_sp = "fence option"
type_synonym buffer_sp = "nat option"

datatype Rect = Rect u32 u32 | Rect_ltrb int int int int

record QueueBufferInput =
  qbi_timestamp :: int
  qbi_crop :: Rect
  qbi_scalingMode :: int
  qbi_transform :: u32
  qbi_fence :: fence_sp

record QueueBufferOutput =
  qbo_width :: u32
  qbo_height :: u32
  qbo_transformHint :: u32
  qbo_numPendingBuffers :: u32

text \<open>\<open>BufferQueue::BufferItem\<close>: the slot (\<open>mBuf\<close>) and the fence of an acquired
  buffer.\<close>
record BufferItem =
  mBuf :: int
  mFence :: fence_sp

datatype fault = UndefinedBehaviour | FatalAbort

text \<open>The calls that leave this file, with their arguments.\<close>
datatype call =
    Src_dequeueBuffer Source u32 u32 u32 u32
  | Src_requestBuffer Source int
  | Src_queueBuffer Source int QueueBufferInput
  | Src_cancelBuffer Source int fence_sp
  | Hwc_fbPost int fence_sp buffer_sp
  | Hwc_setOutputBuffer int fence_sp buffer_sp
  | Hwc_getAndResetReleaseFence int
  | Hwc_getLastRetireFence int
  | CB_acquireBufferLocked int
  | CB_addReleaseFenceLocked int buffer_sp fence_sp
  | CB_releaseBufferLocked int buffer_sp
  | Sys_systemTime

text \<open>The messages of \<open>VDS_LOGW_IF\<close> and \<open>VDS_LOGE\<close>. The \<open>VDS_LOGV\<close>
  lines are verbose logging only and are left out.\<close>
datatype log_msg =
    LOGW_prepareFrame DbgState
  | LOGW_advanceFrame_HWC DbgState
  | LOGW_advanceFrame_GLES DbgState
  | LOGE_advanceFrame_no_buffer
  | LOGW_onFrameCommitted DbgState
  | LOGW_requestBuffer int DbgState
  | LOGW_dequeueBuffer DbgState
  | LOGW_queueBuffer int DbgState
  | LOGW_queueBuffer_acquired int int
  | LOGW_cancelBuffer int DbgState

text \<open>
  The environment. The out-parameter \<open>sp<Fence>* fence\<close> of a source's
  \<open>dequeueBuffer\<close> and the out-parameter \<open>sp<GraphicBuffer>* buf\<close> of its
  \<open>requestBuffer\<close> are passed in with their old value and come back with the value the
  source left there. \<open>mSlots_mFence w i\<close> reads \<open>mSlots[i].mFence\<close> of the
  ConsumerBase part of the object, which only ConsumerBase's own methods write.
\<close>
record 'w env =
  NUM_BUFFER_SLOTS :: nat
  NO_ERROR :: status_t
  NO_MEMORY :: status_t
  BUFFER_NEEDS_REALLOCATION :: status_t
  RELEASE_ALL_BUFFERS :: status_t
  GRALLOC_USAGE_HW_COMPOSER :: u32
  NATIVE_WINDOW_SCALING_MODE_FREEZE :: int
  LOG_NDEBUG :: bool
  Source_u32 :: "Source \<Rightarrow> u32"
  src_dequeueBuffer ::
    "Source \<Rightarrow> fence_sp \<Rightarrow> u32 \<Rightarrow> u32 \<Rightarrow> u32 \<Rightarrow> u32 \<Rightarrow> 'w \<Rightarrow> (status_t \<times> int \<times> fence_sp) \<times> 'w"
  src_requestBuffer :: "Source \<Rightarrow> int \<Rightarrow> buffer_sp \<Rightarrow> 'w \<Rightarrow> (status_t \<times> buffer_sp) \<times> 'w"
  src_queueBuffer ::
    "Source \<Rightarrow> int \<Rightarrow> QueueBufferInput \<Rightarrow> 'w \<Rightarrow> (status_t \<times> QueueBufferOutput) \<times> 'w"
  src_cancelBuffer :: "Source \<Rightarrow> int \<Rightarrow> fence_sp \<Rightarrow> 'w \<Rightarrow> 'w"
  hwc_fbPost :: "int \<Rightarrow> fence_sp \<Rightarrow> buffer_sp \<Rightarrow> 'w \<Rightarrow> status_t \<times> 'w"
  hwc_setOutputBuffer :: "int \<Rightarrow> fence_sp \<Rightarrow> buffer_sp \<Rightarrow> 'w \<Rightarrow> status_t \<times> 'w"
  hwc_getAndResetReleaseFence :: "int \<Rightarrow> 'w \<Rightarrow> fence_sp \<times> 'w"
  hwc_getLastRetireFence :: "int \<Rightarrow> 'w \<Rightarrow> fence_sp \<times> 'w"
  acquireBufferLocked :: "int \<Rightarrow> 'w \<Rightarrow> (status_t \<times> BufferItem) \<times> 'w"
  addReleaseFenceLocked :: "int \<Rightarrow> buffer_sp \<Rightarrow> fence_sp \<Rightarrow> 'w \<Rightarrow> 'w"
  releaseBufferLocked :: "int \<Rightarrow> buffer_sp \<Rightarrow> 'w \<Rightarrow> 'w"
  mSlots_mFence :: "'w \<Rightarrow> int \<Rightarrow> fence_sp"
  systemTime :: "'w \<Rightarrow> int \<times> 'w"

text \<open>The fields of a \<open>VirtualDisplaySurface\<close>, the world outside it, and the two
  lists that record its external calls and its log lines.\<close>
record 'w vds =
  mDisplayId :: int
  mProducerUsage :: u32
  mProducerSlotSource :: u32
  mProducerBuffers :: "int \<Rightarrow> buffer_sp"
  mQueueBufferOutput :: QueueBufferOutput
  mCompositionType :: CompositionType
  mSinkBufferWidth :: u32
  mSinkBufferHeight :: u32
  mFbFence :: fence_sp
  mFbProducerSlot :: int
  mOutputProducerSlot :: int
  mDbgState :: DbgState
  mDbgLastCompositionType :: CompositionType
  world :: 'w
  calls :: "call list"
  logs :: "log_msg list"

section \<open>Slot mapping and source selection\<close>

text \<open>
  Slots are C \<open>int\<close>s, modelled as integers without a bound. For a slot in
  \<open>[0, NUM_BUFFER_SLOTS)\<close> the subtraction stays in that range. Only for a slot below
  \<open>NUM_BUFFER_SLOTS - 2^31\<close>, far from every slot index, does the C++ subtraction
  overflow (undefined behaviour) where this function still gives a number; in the
  source-level dequeue such a slot ends in the range check of the shift.
\<close>
definition mapSource2ProducerSlot :: "'w env \<Rightarrow> Source \<Rightarrow> int \<Rightarrow> int" where
  "mapSource2ProducerSlot E source sslot =
     (if source = SOURCE_SCRATCH then int (NUM_BUFFER_SLOTS E) - sslot - 1 else sslot)"

definition mapProducer2SourceSlot :: "'w env \<Rightarrow> Source \<Rightarrow> int \<Rightarrow> int" where
  "mapProducer2SourceSlot E source pslot = mapSource2ProducerSlot E source pslot"

definition fbSourceForCompositionType :: "CompositionType \<Rightarrow> Source" where
  "fbSourceForCompositionType type =
     (if type = COMPOSITION_MIXED then SOURCE_SCRATCH else SOURCE_SINK)"

text \<open>\<open>VDS_LOGW_IF(cond, msg)\<close>\<close>
definition VDS_LOGW_IF :: "bool \<Rightarrow> log_msg \<Rightarrow> 'w vds \<Rightarrow> 'w vds" where
  "VDS_LOGW_IF cond msg s = (if cond then s\<lparr>logs := logs s @ [msg]\<rparr> else s)"

definition resetPerFrameState :: "'w vds \<Rightarrow> 'w vds" where
  "resetPerFrameState s =
     s\<lparr>mCompositionType := COMPOSITION_UNKNOWN,
       mSinkBufferWidth := 0,
       mSinkBufferHeight := 0,
       mFbFence := Some NO_FENCE,
       mFbProducerSlot := - 1,
       mOutputProducerSlot := - 1\<rparr>"

text \<open>\<open>qbo.deflate\<close> reads the four fields, \<open>inflate\<close> writes them; the transform
  hint is replaced by 0.\<close>
definition updateQueueBufferOutput :: "QueueBufferOutput \<Rightarrow> 'w vds \<Rightarrow> 'w vds" where
  "updateQueueBufferOutput qbo s =
     s\<lparr>mQueueBufferOutput :=
         \<lparr>qbo_width = qbo_width qbo, qbo_height = qbo_height qbo,
          qbo_transformHint = 0, qbo_numPendingBuffers = qbo_numPendingBuffers qbo\<rparr>\<rparr>"

section \<open>The source-level dequeue\<close>

text \<open>
  The loop of lines 246--249, \<open>for (uint32_t i = 0; i < NUM_BUFFER_SLOTS; i++)\<close>.
  \<open>1u << i\<close> is undefined from \<open>i = 32\<close> on.
\<close>
function release_all_loop :: "'w env \<Rightarrow> u32 \<Rightarrow> nat \<Rightarrow> 'w vds \<Rightarrow> fault + 'w vds" where
  "release_all_loop E sourceBit i s =
     (if i < NUM_BUFFER_SLOTS E then
        (if 32 \<le> i then Inl UndefinedBehaviour
         else release_all_loop E sourceBit (Suc i)
                (if (mProducerSlotSource s AND push_bit i 1) = sourceBit
                 then s\<lparr>mProducerBuffers := (mProducerBuffers s)(int i := None)\<rparr>
                 else s))
      else Inr s)"
  by pat_completeness auto
termination
  by (relation "measure (\<lambda>(E, sourceBit, i, s). NUM_BUFFER_SLOTS E - i)") auto

declare release_all_loop.simps [simp del]

text \<open>
  \<open>dequeueBuffer(Source source, uint32_t format, int* sslot, sp<Fence>* fence)\<close>,
  lines 226--258, in the order of the source: the call to the source (lines 228--231),
  then, on success, the three blocks below.

  Line 235, \<open>sourceBit = static_cast<uint32_t>(source) << pslot\<close>.
\<close>
definition sourceBit_of :: "'w env \<Rightarrow> Source \<Rightarrow> int \<Rightarrow> u32" where
  "sourceBit_of E source pslot = push_bit (nat pslot) (Source_u32 E source)"

text \<open>The test of line 237, \<open>(mProducerSlotSource & (1u << pslot)) == sourceBit\<close>:
  the bit of slot \<open>pslot\<close> in the bitmask says \<open>source\<close>.\<close>
definition slot_owner_is :: "'w env \<Rightarrow> u32 \<Rightarrow> int \<Rightarrow> Source \<Rightarrow> bool" where
  "slot_owner_is E bits pslot source \<longleftrightarrow>
     (bits AND push_bit (nat pslot) 1) = sourceBit_of E source pslot"

text \<open>Lines 237--243: a slot last dequeued from the other source is marked for
  reallocation and its bit is set to this source's.\<close>
definition note_slot_source ::
  "'w env \<Rightarrow> Source \<Rightarrow> int \<Rightarrow> status_t \<Rightarrow> 'w vds \<Rightarrow> status_t \<times> 'w vds"
where
  "note_slot_source E source pslot result s =
     (if \<not> slot_owner_is E (mProducerSlotSource s) pslot source
      then (result OR BUFFER_NEEDS_REALLOCATION E,
            s\<lparr>mProducerSlotSource :=
                (mProducerSlotSource s AND NOT (push_bit (nat pslot) 1))
                  OR sourceBit_of E source pslot\<rparr>)
      else (result, s))"

text \<open>Lines 245--250.\<close>
definition release_all ::
  "'w env \<Rightarrow> Source \<Rightarrow> int \<Rightarrow> status_t \<Rightarrow> 'w vds \<Rightarrow> fault + 'w vds"
where
  "release_all E source pslot result s =
     (if (result AND RELEASE_ALL_BUFFERS E) \<noteq> 0
      then release_all_loop E (sourceBit_of E source pslot) 0 s
      else Inr s)"

text \<open>Lines 251--255: the source's \<open>requestBuffer\<close> writes through
  \<open>&mProducerBuffers[pslot]\<close>; its status is not looked at.\<close>
definition refresh_buffer ::
  "'w env \<Rightarrow> Source \<Rightarrow> int \<Rightarrow> int \<Rightarrow> status_t \<Rightarrow> 'w vds \<Rightarrow> fault + 'w vds"
where
  "refresh_buffer E source sslot pslot result s =
     (if (result AND BUFFER_NEEDS_REALLOCATION E) \<noteq> 0 then
        (if int (NUM_BUFFER_SLOTS E) \<le> pslot then Inl UndefinedBehaviour
         else
           (case src_requestBuffer E source sslot (mProducerBuffers s pslot) (world s) of
              ((rr, buf), w2) \<Rightarrow>
                Inr (s\<lparr>world := w2,
                       calls := calls s @ [Src_requestBuffer source sslot],
                       mProducerBuffers := (mProducerBuffers s)(pslot := buf)\<rparr>)))
      else Inr s)"

text \<open>
  The whole function. \<open>fence0\<close> is the caller's fence variable before the call. The
  result is the status, the native slot, the fence and the new state. The shift of
  line 235 is undefined for a \<open>pslot\<close> outside \<open>[0, 32)\<close>.
\<close>
definition dequeueBuffer_Source ::
  "'w env \<Rightarrow> Source \<Rightarrow> u32 \<Rightarrow> fence_sp \<Rightarrow> 'w vds \<Rightarrow> fault + (status_t \<times> int \<times> fence_sp \<times> 'w vds)"
where
  "dequeueBuffer_Source E source format fence0 s =
     (case src_dequeueBuffer E source fence0 (mSinkBufferWidth s) (mSinkBufferHeight s)
             format (mProducerUsage s) (world s) of
        ((result, sslot, fence), w1) \<Rightarrow>
          let s1 = s\<lparr>world := w1,
                     calls := calls s @ [Src_dequeueBuffer source (mSinkBufferWidth s)
                                (mSinkBufferHeight s) format (mProducerUsage s)]\<rparr>
          in if result <s 0 then Inr (result, sslot, fence, s1)
          else
            let pslot = mapSource2ProducerSlot E source sslot
            in if pslot < 0 \<or> 32 \<le> pslot then Inl UndefinedBehaviour
            else
              (case note_slot_source E source pslot result s1 of
                 (result2, s2) \<Rightarrow>
                   (case release_all E source pslot result2 s2 of
                      Inl f \<Rightarrow> Inl f
                    | Inr s3 \<Rightarrow>
                        (case refresh_buffer E source sslot pslot result2 s3 of
                           Inl f \<Rightarrow> Inl f
                         | Inr s4 \<Rightarrow> Inr (result2, sslot, fence, s4)))))"

section \<open>The producer-facing interface\<close>

datatype producer_ref = This | The_Source Source

definition getIGraphicBufferProducer :: "'w vds \<Rightarrow> producer_ref" where
  "getIGraphicBufferProducer s =
     (if 0 \<le> mDisplayId s then This else The_Source SOURCE_SINK)"

text \<open>\<open>requestBuffer(int pslot, sp<GraphicBuffer>* outBuf)\<close>: the status, the
  handle written to \<open>*outBuf\<close>, the new state.\<close>
definition requestBuffer :: "'w env \<Rightarrow> int \<Rightarrow> 'w vds \<Rightarrow> fault + (status_t \<times> buffer_sp \<times> 'w vds)" where
  "requestBuffer E pslot s =
     (let s1 = VDS_LOGW_IF (mDbgState s \<noteq> DBG_STATE_GLES)
                 (LOGW_requestBuffer pslot (mDbgState s)) s
      in if pslot < 0 \<or> int (NUM_BUFFER_SLOTS E) \<le> pslot then Inl UndefinedBehaviour
         else Inr (NO_ERROR E, mProducerBuffers s1 pslot, s1))"

text \<open>
  \<open>dequeueBuffer(int* pslot, sp<Fence>* fence, w, h, format, usage)\<close>, lines 260--281.
  \<open>pslot0\<close> and \<open>fence0\<close> are the caller's variables before the call; \<open>*pslot\<close> is
  written on success only.
\<close>
definition dequeueBuffer ::
  "'w env \<Rightarrow> int \<Rightarrow> fence_sp \<Rightarrow> u32 \<Rightarrow> u32 \<Rightarrow> u32 \<Rightarrow> u32 \<Rightarrow> 'w vds
     \<Rightarrow> fault + (status_t \<times> int \<times> fence_sp \<times> 'w vds)"
where
  "dequeueBuffer E pslot0 fence0 w h format usage s =
     (let s1 = VDS_LOGW_IF (mDbgState s \<noteq> DBG_STATE_PREPARED)
                 (LOGW_dequeueBuffer (mDbgState s)) s;
          s2 = s1\<lparr>mDbgState := DBG_STATE_GLES,
                  mProducerUsage := usage OR GRALLOC_USAGE_HW_COMPOSER E\<rparr>;
          source = fbSourceForCompositionType (mCompositionType s2);
          s3 = (if source = SOURCE_SINK
                then s2\<lparr>mSinkBufferWidth := w, mSinkBufferHeight := h\<rparr> else s2)
      in case dequeueBuffer_Source E source format fence0 s3 of
           Inl f \<Rightarrow> Inl f
         | Inr (result, sslot, fence, s4) \<Rightarrow>
             Inr (result,
                  (if \<not> result <s 0 then mapSource2ProducerSlot E source sslot else pslot0),
                  fence, s4))"

definition cancelBuffer :: "'w env \<Rightarrow> int \<Rightarrow> fence_sp \<Rightarrow> 'w vds \<Rightarrow> 'w vds" where
  "cancelBuffer E pslot fence s =
     (let s1 = VDS_LOGW_IF (mDbgState s \<noteq> DBG_STATE_GLES)
                 (LOGW_cancelBuffer pslot (mDbgState s)) s;
          source = fbSourceForCompositionType (mCompositionType s1);
          sslot = mapProducer2SourceSlot E source pslot
      in s1\<lparr>world := src_cancelBuffer E source sslot fence (world s1),
             calls := calls s1 @ [Src_cancelBuffer source sslot fence]\<rparr>)"


section \<open>The phase protocol\<close>

definition prepareFrame :: "'w env \<Rightarrow> CompositionType \<Rightarrow> 'w vds \<Rightarrow> status_t \<times> 'w vds" where
  "prepareFrame E compositionType s =
     (if mDisplayId s < 0 then (NO_ERROR E, s)
      else
        let s1 = VDS_LOGW_IF (mDbgState s \<noteq> DBG_STATE_IDLE)
                   (LOGW_prepareFrame (mDbgState s)) s;
            s2 = s1\<lparr>mDbgState := DBG_STATE_PREPARED\<rparr>;
            s3 = s2\<lparr>mCompositionType := compositionType\<rparr>;
            s4 = (if mCompositionType s3 \<noteq> mDbgLastCompositionType s3
                  then s3\<lparr>mDbgLastCompositionType := mCompositionType s3\<rparr> else s3)
        in (NO_ERROR E, s4))"

text \<open>
  Lines 135--169 of \<open>advanceFrame\<close>: the routing of the two slots by composition type,
  the last-chance check, and the submission to the hardware composer. \<open>outFence\<close> is
  the local of that name as the first part of the function left it.
\<close>
definition advanceFrame_submit ::
  "'w env \<Rightarrow> fence_sp \<Rightarrow> 'w vds \<Rightarrow> fault + (status_t \<times> 'w vds)"
where
  "advanceFrame_submit E outFence0 s =
     (let s1 = (if mCompositionType s = COMPOSITION_HWC
                then s\<lparr>mFbProducerSlot := mOutputProducerSlot s, mFbFence := outFence0\<rparr>
                else if mCompositionType s = COMPOSITION_GLES
                then s\<lparr>mOutputProducerSlot := mFbProducerSlot s\<rparr>
                else s);
          outFence = (if mCompositionType s = COMPOSITION_HWC then outFence0
                      else if mCompositionType s = COMPOSITION_GLES then mFbFence s
                      else outFence0)
      in if mFbProducerSlot s1 < 0 \<or> mOutputProducerSlot s1 < 0
         then Inr (NO_MEMORY E, s1\<lparr>logs := logs s1 @ [LOGE_advanceFrame_no_buffer]\<rparr>)
         else if int (NUM_BUFFER_SLOTS E) \<le> mFbProducerSlot s1
                 \<or> int (NUM_BUFFER_SLOTS E) \<le> mOutputProducerSlot s1
         then Inl UndefinedBehaviour
         else
           let fbBuffer = mProducerBuffers s1 (mFbProducerSlot s1);
               outBuffer = mProducerBuffers s1 (mOutputProducerSlot s1)
           in (case hwc_fbPost E (mDisplayId s1) (mFbFence s1) fbBuffer (world s1) of
                 (result, w1) \<Rightarrow>
                   let s2 = s1\<lparr>world := w1,
                              calls := calls s1
                                @ [Hwc_fbPost (mDisplayId s1) (mFbFence s1) fbBuffer]\<rparr>
                   in if result = NO_ERROR E then
                        (case hwc_setOutputBuffer E (mDisplayId s2) outFence outBuffer
                                (world s2) of
                           (result2, w2) \<Rightarrow>
                             Inr (result2,
                                  s2\<lparr>world := w2,
                                     calls := calls s2
                                       @ [Hwc_setOutputBuffer (mDisplayId s2) outFence
                                            outBuffer]\<rparr>))
                      else Inr (result, s2)))"

text \<open>\<open>advanceFrame()\<close>, lines 106--170. \<open>mQueueBufferOutput.deflate\<close> copies the
  negotiated width and height into \<open>mSinkBufferWidth\<close> and \<open>mSinkBufferHeight\<close>;
  \<open>sp<Fence> outFence\<close> starts out null.\<close>
definition advanceFrame :: "'w env \<Rightarrow> 'w vds \<Rightarrow> fault + (status_t \<times> 'w vds)" where
  "advanceFrame E s =
     (if mDisplayId s < 0 then Inr (NO_ERROR E, s)
      else
        let s1 = (if mCompositionType s = COMPOSITION_HWC
                  then VDS_LOGW_IF (mDbgState s \<noteq> DBG_STATE_PREPARED)
                         (LOGW_advanceFrame_HWC (mDbgState s)) s
                  else VDS_LOGW_IF (mDbgState s \<noteq> DBG_STATE_GLES_DONE)
                         (LOGW_advanceFrame_GLES (mDbgState s)) s);
            s2 = s1\<lparr>mDbgState := DBG_STATE_HWC\<rparr>
        in if mCompositionType s2 \<noteq> COMPOSITION_GLES then
             (let s3 = s2\<lparr>mSinkBufferWidth := qbo_width (mQueueBufferOutput s2),
                        mSinkBufferHeight := qbo_height (mQueueBufferOutput s2)\<rparr>
              in case dequeueBuffer_Source E SOURCE_SINK 0 None s3 of
                   Inl f \<Rightarrow> Inl f
                 | Inr (result, sslot, outFence, s4) \<Rightarrow>
                     if result <s 0 then Inr (result, s4)
                     else advanceFrame_submit E outFence
                            (s4\<lparr>mOutputProducerSlot :=
                                  mapSource2ProducerSlot E SOURCE_SINK sslot\<rparr>))
           else advanceFrame_submit E None s2)"

text \<open>\<open>onFrameCommitted()\<close>, lines 172--207; first the release of the scratch buffer
  (lines 181--189), then the rest.\<close>
definition release_scratch :: "'w env \<Rightarrow> fence_sp \<Rightarrow> 'w vds \<Rightarrow> fault + 'w vds" where
  "release_scratch E fbFence s =
     (if mCompositionType s = COMPOSITION_MIXED \<and> 0 \<le> mFbProducerSlot s then
        (let sslot = mapProducer2SourceSlot E SOURCE_SCRATCH (mFbProducerSlot s)
         in if int (NUM_BUFFER_SLOTS E) \<le> mFbProducerSlot s then Inl UndefinedBehaviour
            else
              let buf = mProducerBuffers s (mFbProducerSlot s);
                  w1 = addReleaseFenceLocked E sslot buf fbFence (world s);
                  w2 = releaseBufferLocked E sslot buf w1
              in Inr (s\<lparr>world := w2,
                        calls := calls s @ [CB_addReleaseFenceLocked sslot buf fbFence,
                                            CB_releaseBufferLocked sslot buf]\<rparr>))
      else Inr s)"

definition queue_sink :: "'w env \<Rightarrow> 'w vds \<Rightarrow> 'w vds" where
  "queue_sink E s =
     (if 0 \<le> mOutputProducerSlot s then
        (let sslot = mapProducer2SourceSlot E SOURCE_SINK (mOutputProducerSlot s)
         in case hwc_getLastRetireFence E (mDisplayId s) (world s) of
              (outFence, w1) \<Rightarrow>
                (case systemTime E w1 of
                   (now, w2) \<Rightarrow>
                     let input = \<lparr>qbi_timestamp = now,
                                  qbi_crop = Rect (mSinkBufferWidth s) (mSinkBufferHeight s),
                                  qbi_scalingMode = NATIVE_WINDOW_SCALING_MODE_FREEZE E,
                                  qbi_transform = 0,
                                  qbi_fence = outFence\<rparr>
                     in (case src_queueBuffer E SOURCE_SINK sslot input w2 of
                           ((result, qbo), w3) \<Rightarrow>
                             let s1 = s\<lparr>world := w3,
                                        calls := calls s
                                          @ [Hwc_getLastRetireFence (mDisplayId s),
                                             Sys_systemTime,
                                             Src_queueBuffer SOURCE_SINK sslot input]\<rparr>
                             in if result = NO_ERROR E then updateQueueBufferOutput qbo s1
                                else s1)))
      else s)"

definition onFrameCommitted :: "'w env \<Rightarrow> 'w vds \<Rightarrow> fault + 'w vds" where
  "onFrameCommitted E s =
     (if mDisplayId s < 0 then Inr s
      else
        let s1 = VDS_LOGW_IF (mDbgState s \<noteq> DBG_STATE_HWC)
                   (LOGW_onFrameCommitted (mDbgState s)) s;
            s2 = s1\<lparr>mDbgState := DBG_STATE_IDLE\<rparr>
        in case hwc_getAndResetReleaseFence E (mDisplayId s2) (world s2) of
             (fbFence, w1) \<Rightarrow>
               (case release_scratch E fbFence
                       (s2\<lparr>world := w1,
                           calls := calls s2 @ [Hwc_getAndResetReleaseFence (mDisplayId s2)]\<rparr>) of
                  Inl f \<Rightarrow> Inl f
                | Inr s3 \<Rightarrow> Inr (resetPerFrameState (queue_sink E s3))))"

section \<open>Vocabulary for the statements\<close>

text \<open>The source a call is addressed to, if it is a call to a source.\<close>
definition call_source :: "call \<Rightarrow> Source option" where
  "call_source c =
     (case c of
        Src_dequeueBuffer source w h format usage \<Rightarrow> Some source
      | Src_requestBuffer source sslot \<Rightarrow> Some source
      | Src_queueBuffer source sslot input \<Rightarrow> Some source
      | Src_cancelBuffer source sslot fence \<Rightarrow> Some source
      | _ \<Rightarrow> None)"

text \<open>The two calls that hand buffers to the hardware composer.\<close>
definition is_hwc_submit :: "call \<Rightarrow> bool" where
  "is_hwc_submit c =
     (case c of
        Hwc_fbPost d fence buf \<Rightarrow> True
      | Hwc_setOutputBuffer d fence buf \<Rightarrow> True
      | _ \<Rightarrow> False)"

text \<open>What the sink answers to the dequeue of line 129 of \<open>advanceFrame\<close>, which asks
  with the negotiated width and height of \<open>mQueueBufferOutput\<close> and format 0.\<close>
definition sink_dequeue_answer :: "'w env \<Rightarrow> 'w vds \<Rightarrow> (status_t \<times> int \<times> fence_sp) \<times> 'w" where
  "sink_dequeue_answer E s =
     src_dequeueBuffer E SOURCE_SINK None (qbo_width (mQueueBufferOutput s))
       (qbo_height (mQueueBufferOutput s)) 0 (mProducerUsage s) (world s)"

section \<open>A concrete environment and concrete states\<close>

text \<open>
  \<open>android_env\<close> gives the header constants the values they have in this release of
  the platform (\<open>BufferQueue::NUM_BUFFER_SLOTS = 32\<close>, \<open>NO_ERROR = 0\<close>,
  \<open>NO_MEMORY = -ENOMEM = -12\<close>, \<open>BUFFER_NEEDS_REALLOCATION = 1\<close>,
  \<open>RELEASE_ALL_BUFFERS = 2\<close>, \<open>SOURCE_SINK = 0\<close>, \<open>SOURCE_SCRATCH = 1\<close>) and
  simple collaborators: every source call succeeds, a dequeue hands out native slot 0
  with fence 1, \<open>requestBuffer\<close> returns buffer \<open>100 + slot\<close>, the hardware composer
  accepts everything. The world is \<open>unit\<close>.
\<close>
definition android_env :: "unit env" where
  "android_env =
     \<lparr>NUM_BUFFER_SLOTS = 32,
      NO_ERROR = 0,
      NO_MEMORY = - 12,
      BUFFER_NEEDS_REALLOCATION = 1,
      RELEASE_ALL_BUFFERS = 2,
      GRALLOC_USAGE_HW_COMPOSER = 2048,
      NATIVE_WINDOW_SCALING_MODE_FREEZE = 0,
      LOG_NDEBUG = True,
      Source_u32 = (\<lambda>source. if source = SOURCE_SCRATCH then 1 else 0),
      src_dequeueBuffer = (\<lambda>source fence0 w h format usage u. ((0, 0, Some (Fence 1)), u)),
      src_requestBuffer = (\<lambda>source sslot buf0 u. ((0, Some (nat sslot + 100)), u)),
      src_queueBuffer = (\<lambda>source sslot input u.
         ((0, \<lparr>qbo_width = 640, qbo_height = 480, qbo_transformHint = 0,
               qbo_numPendingBuffers = 1\<rparr>), u)),
      src_cancelBuffer = (\<lambda>source sslot fence u. u),
      hwc_fbPost = (\<lambda>d fence buf u. (0, u)),
      hwc_setOutputBuffer = (\<lambda>d fence buf u. (0, u)),
      hwc_getAndResetReleaseFence = (\<lambda>d u. (Some (Fence 2), u)),
      hwc_getLastRetireFence = (\<lambda>d u. (Some (Fence 3), u)),
      acquireBufferLocked = (\<lambda>presentWhen u. ((0, \<lparr>mBuf = 0, mFence = Some (Fence 4)\<rparr>), u)),
      addReleaseFenceLocked = (\<lambda>sslot buf fence u. u),
      releaseBufferLocked = (\<lambda>sslot buf u. u),
      mSlots_mFence = (\<lambda>u i. Some (Fence 4)),
      systemTime = (\<lambda>u. (1000, u))\<rparr>"

text \<open>The object as the constructor leaves it for display 0, after a \<open>connect\<close> that
  negotiated 640 x 480: no slot owned by the scratch pool, no buffer cached.\<close>
definition idle_vds :: "unit vds" where
  "idle_vds =
     \<lparr>mDisplayId = 0,
      mProducerUsage = 2048,
      mProducerSlotSource = 0,
      mProducerBuffers = (\<lambda>i. None),
      mQueueBufferOutput = \<lparr>qbo_width = 640, qbo_height = 480, qbo_transformHint = 0,
                             qbo_numPendingBuffers = 0\<rparr>,
      mCompositionType = COMPOSITION_UNKNOWN,
      mSinkBufferWidth = 0,
      mSinkBufferHeight = 0,
      mFbFence = Some NO_FENCE,
      mFbProducerSlot = - 1,
      mOutputProducerSlot = - 1,
      mDbgState = DBG_STATE_IDLE,
      mDbgLastCompositionType = COMPOSITION_UNKNOWN,
      world = (),
      calls = [],
      logs = []\<rparr>"

text \<open>A Mixed frame whose renderer never queued a buffer: after \<open>prepareFrame\<close>,
  with no framebuffer slot.\<close>
definition mixed_prepared_vds :: "unit vds" where
  "mixed_prepared_vds =
     idle_vds\<lparr>mCompositionType := COMPOSITION_MIXED, mDbgState := DBG_STATE_PREPARED\<rparr>"

text \<open>A frame prepared for hardware composition only; slot 0 holds buffer 100 from
  an earlier frame.\<close>
definition hwc_prepared_vds :: "unit vds" where
  "hwc_prepared_vds =
     idle_vds\<lparr>mCompositionType := COMPOSITION_HWC, mDbgState := DBG_STATE_PREPARED,
              mProducerBuffers := (\<lambda>i. if i = 0 then Some 100 else None)\<rparr>"


text \<open>
  \<open>release_all_env\<close> is \<open>android_env\<close> with sources whose dequeue answers
  \<open>RELEASE_ALL_BUFFERS\<close> (status 2) for native slot 0. In \<open>two_scratch_vds\<close> the
  unified slots 31 and 30 (scratch slots 0 and 1) both carry the scratch pool's bit and
  a cached buffer, as after two Mixed frames.
\<close>
definition release_all_env :: "unit env" where
  "release_all_env =
     android_env\<lparr>src_dequeueBuffer :=
       (\<lambda>source fence0 w h format usage u. ((2, 0, Some (Fence 1)), u))\<rparr>"

definition two_scratch_vds :: "unit vds" where
  "two_scratch_vds =
     idle_vds\<lparr>mCompositionType := COMPOSITION_MIXED, mDbgState := DBG_STATE_PREPARED,
              mProducerSlotSource := 3221225472,
              mProducerBuffers := (\<lambda>i. if i = 31 then Some 100
                                        else if i = 30 then Some 101 else None)\<rparr>"








section \<open>Properties\<close>

subsection \<open>Auxiliary facts about the source-level dequeue\<close>

lemma VDS_LOGW_IF_fields [simp]:
  "mDisplayId (VDS_LOGW_IF c m s) = mDisplayId s"
  "mProducerUsage (VDS_LOGW_IF c m s) = mProducerUsage s"
  "mProducerSlotSource (VDS_LOGW_IF c m s) = mProducerSlotSource s"
  "mProducerBuffers (VDS_LOGW_IF c m s) = mProducerBuffers s"
  "mQueueBufferOutput (VDS_LOGW_IF c m s) = mQueueBufferOutput s"
  "mCompositionType (VDS_LOGW_IF c m s) = mCompositionType s"
  "mSinkBufferWidth (VDS_LOGW_IF c m s) = mSinkBufferWidth s"
  "mSinkBufferHeight (VDS_LOGW_IF c m s) = mSinkBufferHeight s"
  "mFbFence (VDS_LOGW_IF c m s) = mFbFence s"
  "mFbProducerSlot (VDS_LOGW_IF c m s) = mFbProducerSlot s"
  "mOutputProducerSlot (VDS_LOGW_IF c m s) = mOutputProducerSlot s"
  "mDbgState (VDS_LOGW_IF c m s) = mDbgState s"
  "mDbgLastCompositionType (VDS_LOGW_IF c m s) = mDbgLastCompositionType s"
  "world (VDS_LOGW_IF c m s) = world s"
  "calls (VDS_LOGW_IF c m s) = calls s"
  by (simp_all add: VDS_LOGW_IF_def)

lemma release_all_loop_result:
  "NUM_BUFFER_SLOTS E \<le> 32 \<Longrightarrow>
   release_all_loop E sourceBit i s =
     Inr (s\<lparr>mProducerBuffers := (\<lambda>j. if int i \<le> j \<and> j < int (NUM_BUFFER_SLOTS E)
                \<and> (mProducerSlotSource s AND push_bit (nat j) 1) = sourceBit
              then None else mProducerBuffers s j)\<rparr>)"
proof (induction E sourceBit i s rule: release_all_loop.induct)
  case (1 E sourceBit i s)
  let ?N = "int (NUM_BUFFER_SLOTS E)"
  let ?hit = "\<lambda>j. (mProducerSlotSource s AND push_bit (nat j) 1) = sourceBit"
  show ?case
  proof (cases "i < NUM_BUFFER_SLOTS E")
    case False
    then have "(\<lambda>j. if int i \<le> j \<and> j < ?N \<and> ?hit j then None else mProducerBuffers s j)
               = mProducerBuffers s"
      by (auto simp: fun_eq_iff)
    with False show ?thesis
      by (subst release_all_loop.simps) simp
  next
    case True
    with "1.prems" have lt: "\<not> 32 \<le> i" by simp
    let ?s1 = "if (mProducerSlotSource s AND push_bit i 1) = sourceBit
                 then s\<lparr>mProducerBuffers := (mProducerBuffers s)(int i := None)\<rparr>
                 else s"
    have step: "release_all_loop E sourceBit i s = release_all_loop E sourceBit (Suc i) ?s1"
      using True lt by (subst release_all_loop.simps) simp
    have funs: "(\<lambda>j. if int (Suc i) \<le> j \<and> j < ?N
                      \<and> (mProducerSlotSource ?s1 AND push_bit (nat j) 1) = sourceBit
                    then None else mProducerBuffers ?s1 j)
              = (\<lambda>j. if int i \<le> j \<and> j < ?N \<and> ?hit j then None else mProducerBuffers s j)"
    proof (rule ext)
      fix j :: int
      show "(if int (Suc i) \<le> j \<and> j < ?N
                      \<and> (mProducerSlotSource ?s1 AND push_bit (nat j) 1) = sourceBit
                    then None else mProducerBuffers ?s1 j)
          = (if int i \<le> j \<and> j < ?N \<and> ?hit j then None else mProducerBuffers s j)"
        using True by (cases "j = int i") auto
    qed
    have "release_all_loop E sourceBit (Suc i) ?s1 =
          Inr (?s1\<lparr>mProducerBuffers := (\<lambda>j. if int (Suc i) \<le> j \<and> j < ?N
                      \<and> (mProducerSlotSource ?s1 AND push_bit (nat j) 1) = sourceBit
                    then None else mProducerBuffers ?s1 j)\<rparr>)"
      by (rule "1.IH" [OF True lt "1.prems"])
    also have "\<dots> = Inr (s\<lparr>mProducerBuffers :=
                 (\<lambda>j. if int i \<le> j \<and> j < ?N \<and> ?hit j then None else mProducerBuffers s j)\<rparr>)"
      unfolding funs by simp
    finally show ?thesis
      unfolding step .
  qed
qed

lemma release_all_loop_frame:
  "release_all_loop E sourceBit i s = Inr s' \<Longrightarrow>
   s' = s\<lparr>mProducerBuffers := mProducerBuffers s'\<rparr>"
proof (induction E sourceBit i s rule: release_all_loop.induct)
  case (1 E sourceBit i s)
  show ?case
  proof (cases "i < NUM_BUFFER_SLOTS E")
    case False
    with "1.prems" show ?thesis
      by (subst (asm) release_all_loop.simps) auto
  next
    case True
    show ?thesis
    proof (cases "32 \<le> i")
      case True
      with \<open>i < NUM_BUFFER_SLOTS E\<close> "1.prems" show ?thesis
        by (subst (asm) release_all_loop.simps) simp
    next
      case False
      let ?s1 = "if (mProducerSlotSource s AND push_bit i 1) = sourceBit
                 then s\<lparr>mProducerBuffers := (mProducerBuffers s)(int i := None)\<rparr>
                 else s"
      from True False "1.prems"
      have "release_all_loop E sourceBit (Suc i) ?s1 = Inr s'"
        by (subst (asm) release_all_loop.simps) simp
      from "1.IH" [OF True False this]
      have "s' = ?s1\<lparr>mProducerBuffers := mProducerBuffers s'\<rparr>" .
      then show ?thesis
        by (simp split: if_splits)
    qed
  qed
qed


lemma note_slot_source_frame:
  assumes "note_slot_source E source pslot result s = (result2, s2)"
  shows "(\<exists>owners. s2 = s\<lparr>mProducerSlotSource := owners\<rparr>)
       \<and> (result2 = result \<or> result2 = result OR BUFFER_NEEDS_REALLOCATION E)"
proof (cases "\<not> slot_owner_is E (mProducerSlotSource s) pslot source")
  case True
  with assms show ?thesis
    by (auto simp: note_slot_source_def)
next
  case False
  with assms have "s2 = s\<lparr>mProducerSlotSource := mProducerSlotSource s\<rparr>" "result2 = result"
    by (auto simp: note_slot_source_def)
  then show ?thesis by blast
qed

lemma release_all_frame:
  assumes "release_all E source pslot result s = Inr s3"
  shows "\<exists>bufs. s3 = s\<lparr>mProducerBuffers := bufs\<rparr>"
proof (cases "(result AND RELEASE_ALL_BUFFERS E) \<noteq> 0")
  case True
  with assms have "release_all_loop E (sourceBit_of E source pslot) 0 s = Inr s3"
    by (simp add: release_all_def)
  from release_all_loop_frame [OF this] show ?thesis
    by (rule exI [where x = "mProducerBuffers s3"])
next
  case False
  with assms have "s3 = s\<lparr>mProducerBuffers := mProducerBuffers s\<rparr>"
    by (simp add: release_all_def)
  then show ?thesis
    by (rule exI [where x = "mProducerBuffers s"])
qed

lemma refresh_buffer_frame:
  assumes "refresh_buffer E source sslot pslot result s = Inr s4"
  shows "\<exists>w bufs cs. s4 = s\<lparr>world := w, calls := calls s @ cs, mProducerBuffers := bufs\<rparr>
           \<and> (cs = [] \<or> cs = [Src_requestBuffer source sslot])"
proof (cases "(result AND BUFFER_NEEDS_REALLOCATION E) \<noteq> 0")
  case True
  with assms show ?thesis
    by (auto simp: refresh_buffer_def split: if_splits prod.splits)
next
  case False
  with assms have "s4 = s\<lparr>world := world s, calls := calls s @ [],
                          mProducerBuffers := mProducerBuffers s\<rparr>"
    by (simp add: refresh_buffer_def)
  then show ?thesis by blast
qed

lemma dequeueBuffer_Source_frame:
  assumes o: "src_dequeueBuffer E source fence0 (mSinkBufferWidth s) (mSinkBufferHeight s)
             format (mProducerUsage s) (world s) = ((dr, ds, df), w1)"
    and d: "dequeueBuffer_Source E source format fence0 s = Inr (r, sslot, f, s')"
  shows "sslot = ds \<and> f = df
       \<and> (\<exists>bufs owners w cs.
             s' = s\<lparr>world := w, calls := calls s @ cs, mProducerSlotSource := owners,
                    mProducerBuffers := bufs\<rparr>
             \<and> (cs = [Src_dequeueBuffer source (mSinkBufferWidth s) (mSinkBufferHeight s)
                         format (mProducerUsage s)]
                \<or> cs = [Src_dequeueBuffer source (mSinkBufferWidth s) (mSinkBufferHeight s)
                           format (mProducerUsage s), Src_requestBuffer source sslot]))
       \<and> (dr <s 0 \<longrightarrow> r = dr)
       \<and> (\<not> dr <s 0 \<longrightarrow>
            0 \<le> mapSource2ProducerSlot E source sslot
            \<and> mapSource2ProducerSlot E source sslot < 32
            \<and> (r = dr \<or> r = dr OR BUFFER_NEEDS_REALLOCATION E))"
proof (cases "dr <s 0")
  case True
  with o d have e: "r = dr" "sslot = ds" "f = df"
    "s' = s\<lparr>world := w1,
            calls := calls s @ [Src_dequeueBuffer source (mSinkBufferWidth s)
                                (mSinkBufferHeight s) format (mProducerUsage s)]\<rparr>"
    by (auto simp: dequeueBuffer_Source_def)
  from e(4) have "s' = s\<lparr>world := w1,
            calls := calls s @ [Src_dequeueBuffer source (mSinkBufferWidth s)
                                (mSinkBufferHeight s) format (mProducerUsage s)],
            mProducerSlotSource := mProducerSlotSource s,
            mProducerBuffers := mProducerBuffers s\<rparr>"
    by simp
  with e(1,2,3) have "r = dr" "sslot = ds" "f = df"
    "\<exists>bufs owners w cs.
             s' = s\<lparr>world := w, calls := calls s @ cs, mProducerSlotSource := owners,
                    mProducerBuffers := bufs\<rparr>
             \<and> (cs = [Src_dequeueBuffer source (mSinkBufferWidth s) (mSinkBufferHeight s)
                         format (mProducerUsage s)]
                \<or> cs = [Src_dequeueBuffer source (mSinkBufferWidth s) (mSinkBufferHeight s)
                           format (mProducerUsage s), Src_requestBuffer source sslot])"
    by blast+
  with True show ?thesis by simp
next
  case False
  let ?c = "Src_dequeueBuffer source (mSinkBufferWidth s) (mSinkBufferHeight s)
              format (mProducerUsage s)"
  define pslot where "pslot = mapSource2ProducerSlot E source ds"
  define s1 where "s1 = s\<lparr>world := w1, calls := calls s @ [?c]\<rparr>"
  obtain result2 s2 where n: "note_slot_source E source pslot dr s1 = (result2, s2)"
    by (cases "note_slot_source E source pslot dr s1")
  have unfolded: "dequeueBuffer_Source E source format fence0 s =
      (if pslot < 0 \<or> 32 \<le> pslot then Inl UndefinedBehaviour
       else (case release_all E source pslot result2 s2 of
               Inl f \<Rightarrow> Inl f
             | Inr s3 \<Rightarrow>
                 (case refresh_buffer E source ds pslot result2 s3 of
                    Inl f \<Rightarrow> Inl f
                  | Inr s4 \<Rightarrow> Inr (result2, ds, df, s4))))"
    using False n unfolding pslot_def s1_def
    by (simp add: dequeueBuffer_Source_def o Let_def)
  from d have range: "0 \<le> pslot" "pslot < 32"
    unfolding unfolded by (auto split: if_splits)
  from d range obtain s3 where s3: "release_all E source pslot result2 s2 = Inr s3"
    unfolding unfolded by (cases "release_all E source pslot result2 s2") auto
  from d range s3 obtain s4 where s4: "refresh_buffer E source ds pslot result2 s3 = Inr s4"
    unfolding unfolded by (cases "refresh_buffer E source ds pslot result2 s3") auto
  from d range s3 s4 have out: "r = result2" "sslot = ds" "f = df" "s' = s4"
    unfolding unfolded by simp_all
  from note_slot_source_frame [OF n] obtain owners where
    s2: "s2 = s1\<lparr>mProducerSlotSource := owners\<rparr>"
    and res: "result2 = dr \<or> result2 = dr OR BUFFER_NEEDS_REALLOCATION E"
    by blast
  from release_all_frame [OF s3] obtain bufs where
    s3_eq: "s3 = s2\<lparr>mProducerBuffers := bufs\<rparr>"
    by blast
  from refresh_buffer_frame [OF s4] obtain w bufs' cs where
    s4_eq: "s4 = s3\<lparr>world := w, calls := calls s3 @ cs, mProducerBuffers := bufs'\<rparr>"
    and cs: "cs = [] \<or> cs = [Src_requestBuffer source ds]"
    by blast
  have "s' = s\<lparr>world := w, calls := calls s @ (?c # cs), mProducerSlotSource := owners,
                mProducerBuffers := bufs'\<rparr>"
    by (simp add: out s4_eq s3_eq s2 s1_def)
  moreover from cs out have "?c # cs = [?c] \<or> ?c # cs = [?c, Src_requestBuffer source sslot]"
    by auto
  ultimately have "\<exists>bufs owners w cs.
             s' = s\<lparr>world := w, calls := calls s @ cs, mProducerSlotSource := owners,
                    mProducerBuffers := bufs\<rparr>
             \<and> (cs = [?c] \<or> cs = [?c, Src_requestBuffer source sslot])"
    by blast
  with out(1,2,3) res range False show ?thesis
    by (simp add: pslot_def)
qed

subsection \<open>Two concrete frames\<close>

lemmas dequeue_defs =
  dequeueBuffer_Source_def note_slot_source_def slot_owner_is_def sourceBit_of_def
  release_all_def refresh_buffer_def mapSource2ProducerSlot_def mapProducer2SourceSlot_def

lemma mixed_prepared_run:
  "advanceFrame android_env mixed_prepared_vds =
     Inr (- 12, mixed_prepared_vds\<lparr>mDbgState := DBG_STATE_HWC,
            mSinkBufferWidth := 640, mSinkBufferHeight := 480,
            mOutputProducerSlot := 0,
            calls := [Src_dequeueBuffer SOURCE_SINK 640 480 0 2048],
            logs := [LOGW_advanceFrame_GLES DBG_STATE_PREPARED, LOGE_advanceFrame_no_buffer]\<rparr>)"
  by (simp add: advanceFrame_def advanceFrame_submit_def dequeue_defs VDS_LOGW_IF_def
      android_env_def mixed_prepared_vds_def idle_vds_def Let_def)

lemma hwc_prepared_run:
  "advanceFrame android_env hwc_prepared_vds =
     Inr (0, hwc_prepared_vds\<lparr>mDbgState := DBG_STATE_HWC,
            mSinkBufferWidth := 640, mSinkBufferHeight := 480,
            mOutputProducerSlot := 0, mFbProducerSlot := 0, mFbFence := Some (Fence 1),
            calls := [Src_dequeueBuffer SOURCE_SINK 640 480 0 2048,
                      Hwc_fbPost 0 (Some (Fence 1)) (Some 100),
                      Hwc_setOutputBuffer 0 (Some (Fence 1)) (Some 100)]\<rparr>)"
  by (simp add: advanceFrame_def advanceFrame_submit_def dequeue_defs VDS_LOGW_IF_def
      android_env_def hwc_prepared_vds_def idle_vds_def Let_def)

subsection \<open>Slot mapping\<close>

text \<open>
  Claim C1. For both sources and every native slot \<open>s\<close> with
  \<open>0 \<le> s < NUM_BUFFER_SLOTS\<close>, mapping twice gives \<open>s\<close> back; the scratch mapping
  is \<open>s \<mapsto> NUM_BUFFER_SLOTS - s - 1\<close>, the sink mapping is the identity, and
  \<open>mapProducer2SourceSlot\<close> is the same function as \<open>mapSource2ProducerSlot\<close>.
  The mapped slot is again a slot index, so the C \<open>int\<close> arithmetic does not overflow.
\<close>
theorem mapSource2ProducerSlot_involution:
  assumes "0 \<le> s" and "s < int (NUM_BUFFER_SLOTS E)"
  shows "mapSource2ProducerSlot E source (mapSource2ProducerSlot E source s) = s
       \<and> mapSource2ProducerSlot E SOURCE_SCRATCH s = int (NUM_BUFFER_SLOTS E) - s - 1
       \<and> mapSource2ProducerSlot E SOURCE_SINK s = s
       \<and> mapProducer2SourceSlot E = mapSource2ProducerSlot E
       \<and> 0 \<le> mapSource2ProducerSlot E source s
       \<and> mapSource2ProducerSlot E source s < int (NUM_BUFFER_SLOTS E)"
proof -
  have "mapProducer2SourceSlot E = mapSource2ProducerSlot E"
    by (rule ext, rule ext) (simp add: mapProducer2SourceSlot_def)
  with assms show ?thesis
    by (simp add: mapSource2ProducerSlot_def)
qed

theorem mapSource2ProducerSlot_involution_witness:
  "(0::int) \<le> 3 \<and> 3 < int (NUM_BUFFER_SLOTS android_env)
   \<and> mapSource2ProducerSlot android_env SOURCE_SCRATCH 3 = 28
   \<and> mapSource2ProducerSlot android_env SOURCE_SCRATCH 28 = 3
   \<and> mapProducer2SourceSlot android_env SOURCE_SCRATCH 28 = 3"
proof -
  have h: "(0::int) \<le> 3" "3 < int (NUM_BUFFER_SLOTS android_env)"
    by (simp_all add: android_env_def)
  from mapSource2ProducerSlot_involution [OF h, of SOURCE_SCRATCH] h show ?thesis
    by (simp add: android_env_def mapSource2ProducerSlot_def)
qed

subsection \<open>A display without hardware composer\<close>

text \<open>
  Claim C9. With a negative display id, \<open>prepareFrame\<close> and \<open>advanceFrame\<close> return
  \<open>NO_ERROR\<close> and \<open>onFrameCommitted\<close> returns, each leaving the object, the world,
  the call list and the log exactly as they were, and \<open>getIGraphicBufferProducer\<close>
  hands out the sink itself.
\<close>
theorem passthrough_is_noop:
  assumes "mDisplayId s < 0"
  shows "prepareFrame E compositionType s = (NO_ERROR E, s)
       \<and> advanceFrame E s = Inr (NO_ERROR E, s)
       \<and> onFrameCommitted E s = Inr s
       \<and> getIGraphicBufferProducer s = The_Source SOURCE_SINK"
  using assms
  by (simp add: prepareFrame_def advanceFrame_def onFrameCommitted_def
      getIGraphicBufferProducer_def)

theorem passthrough_is_noop_witness:
  "mDisplayId (idle_vds\<lparr>mDisplayId := - 1\<rparr>) < 0
   \<and> advanceFrame android_env (idle_vds\<lparr>mDisplayId := - 1\<rparr>)
       = Inr (0, idle_vds\<lparr>mDisplayId := - 1\<rparr>)
   \<and> prepareFrame android_env COMPOSITION_MIXED (idle_vds\<lparr>mDisplayId := - 1\<rparr>)
       = (0, idle_vds\<lparr>mDisplayId := - 1\<rparr>)"
proof -
  have h: "mDisplayId (idle_vds\<lparr>mDisplayId := - 1\<rparr>) < 0"
    by simp
  from passthrough_is_noop [OF h, of android_env COMPOSITION_MIXED] h show ?thesis
    by (simp add: android_env_def)
qed

subsection \<open>The producer-facing requestBuffer\<close>

text \<open>
  Claim C10. For every slot index \<open>pslot\<close> (\<open>0 \<le> pslot < NUM_BUFFER_SLOTS\<close>),
  in every state, \<open>requestBuffer\<close> returns \<open>NO_ERROR\<close> together with the handle
  cached in \<open>mProducerBuffers[pslot]\<close> (null when none was cached); it changes nothing
  but the log, so it makes no call to a source. Outside that range the C++ array read
  is out of bounds.
\<close>
theorem requestBuffer_from_cache:
  assumes "0 \<le> pslot" and "pslot < int (NUM_BUFFER_SLOTS E)"
  shows "\<exists>s'. requestBuffer E pslot s = Inr (NO_ERROR E, mProducerBuffers s pslot, s')
            \<and> s'\<lparr>logs := logs s\<rparr> = s"
  using assms
  by (simp add: requestBuffer_def VDS_LOGW_IF_def Let_def)

theorem requestBuffer_from_cache_witness:
  "(0::int) \<le> 5 \<and> 5 < int (NUM_BUFFER_SLOTS android_env)
   \<and> (\<exists>s'. requestBuffer android_env 5 idle_vds = Inr (0, None, s') \<and> calls s' = [])"
proof -
  have h: "(0::int) \<le> 5" "5 < int (NUM_BUFFER_SLOTS android_env)"
    by (simp_all add: android_env_def)
  from requestBuffer_from_cache [OF h, of idle_vds] obtain s' where
    r: "requestBuffer android_env 5 idle_vds
          = Inr (NO_ERROR android_env, mProducerBuffers idle_vds 5, s')"
    and s: "s'\<lparr>logs := logs idle_vds\<rparr> = idle_vds"
    by blast
  from s have "calls (s'\<lparr>logs := logs idle_vds\<rparr>) = calls idle_vds"
    by simp
  then have "calls s' = []"
    by (simp add: idle_vds_def)
  with r h show ?thesis
    by (simp add: android_env_def idle_vds_def)
qed

subsection \<open>advanceFrame without a buffer\<close>


lemma sink_dequeue_calls:
  assumes "cs = [Src_dequeueBuffer source w h format usage]
         \<or> cs = [Src_dequeueBuffer source w h format usage, Src_requestBuffer source sslot]"
  shows "list_all (\<lambda>c. \<not> is_hwc_submit c) cs"
  using assms by (auto simp: is_hwc_submit_def)





subsection \<open>advanceFrame on a frame composed by hardware only\<close>

lemma advanceFrame_submit_HWC:
  assumes hwc: "mCompositionType s = COMPOSITION_HWC"
    and sub: "advanceFrame_submit E outFence0 s = Inr (NO_ERROR E, s')"
    and slot: "0 \<le> mOutputProducerSlot s"
  shows "mFbProducerSlot s' = mOutputProducerSlot s
       \<and> mOutputProducerSlot s' = mOutputProducerSlot s
       \<and> mFbFence s' = outFence0
       \<and> mProducerBuffers s' = mProducerBuffers s
       \<and> calls s' = calls s
            @ [Hwc_fbPost (mDisplayId s) outFence0 (mProducerBuffers s (mOutputProducerSlot s)),
               Hwc_setOutputBuffer (mDisplayId s) outFence0
                 (mProducerBuffers s (mOutputProducerSlot s))]"
  using assms
  by (auto simp: advanceFrame_submit_def Let_def split: if_splits prod.splits)

text \<open>
  Claim C6. For a display with a hardware composer id and composition type
  \<open>COMPOSITION_HWC\<close>, let \<open>advanceFrame\<close> return \<open>NO_ERROR\<close> (which is not a
  negative status), the sink having answered the dequeue with slot \<open>sslot\<close> and
  \<open>fence\<close>. Then the output slot is that slot (mapped), the framebuffer slot equals
  the output slot, the framebuffer fence is \<open>fence\<close>, and the last two calls are
  \<open>fbPost\<close> and \<open>setOutputBuffer\<close> with that one fence and the one buffer cached
  for that slot; no other call hands a buffer to the hardware composer.
\<close>
theorem advanceFrame_HWC_one_buffer:
  assumes disp: "0 \<le> mDisplayId s"
    and hwc: "mCompositionType s = COMPOSITION_HWC"
    and adv: "advanceFrame E s = Inr (NO_ERROR E, s')"
    and ok: "\<not> NO_ERROR E <s 0"
    and o: "sink_dequeue_answer E s = ((dr, sslot, fence), w1)"
  shows "mOutputProducerSlot s' = mapSource2ProducerSlot E SOURCE_SINK sslot
       \<and> mFbProducerSlot s' = mOutputProducerSlot s'
       \<and> mFbFence s' = fence
       \<and> (\<exists>cs. calls s' = calls s @ cs
                 @ [Hwc_fbPost (mDisplayId s) fence (mProducerBuffers s' (mFbProducerSlot s')),
                    Hwc_setOutputBuffer (mDisplayId s) fence
                      (mProducerBuffers s' (mOutputProducerSlot s'))]
              \<and> list_all (\<lambda>c. \<not> is_hwc_submit c) cs)"
proof -
  define s2 where
    "s2 = (VDS_LOGW_IF (mDbgState s \<noteq> DBG_STATE_PREPARED)
             (LOGW_advanceFrame_HWC (mDbgState s)) s)\<lparr>mDbgState := DBG_STATE_HWC\<rparr>"
  define s3 where
    "s3 = s2\<lparr>mSinkBufferWidth := qbo_width (mQueueBufferOutput s2),
              mSinkBufferHeight := qbo_height (mQueueBufferOutput s2)\<rparr>"
  have s3_f: "calls s3 = calls s" "mCompositionType s3 = COMPOSITION_HWC"
    "mDisplayId s3 = mDisplayId s"
    by (simp_all add: s3_def s2_def hwc)
  from o have o3: "src_dequeueBuffer E SOURCE_SINK None (mSinkBufferWidth s3)
        (mSinkBufferHeight s3) 0 (mProducerUsage s3) (world s3) = ((dr, sslot, fence), w1)"
    by (simp add: sink_dequeue_answer_def s3_def s2_def)
  have adv': "advanceFrame E s =
       (case dequeueBuffer_Source E SOURCE_SINK 0 None s3 of
                   Inl f \<Rightarrow> Inl f
                 | Inr (result, sslot, outFence, s4) \<Rightarrow>
                     if result <s 0 then Inr (result, s4)
                     else advanceFrame_submit E outFence
                            (s4\<lparr>mOutputProducerSlot :=
                                  mapSource2ProducerSlot E SOURCE_SINK sslot\<rparr>))"
    using disp hwc unfolding s3_def s2_def
    by (simp add: advanceFrame_def Let_def)
  from adv obtain dres sslot' outFence s4 where
    d: "dequeueBuffer_Source E SOURCE_SINK 0 None s3 = Inr (dres, sslot', outFence, s4)"
    unfolding adv' by (auto split: sum.splits)
  from adv d ok have nneg: "\<not> dres <s 0"
    unfolding adv' by (auto split: if_splits)
  let ?s5 = "s4\<lparr>mOutputProducerSlot := mapSource2ProducerSlot E SOURCE_SINK sslot'\<rparr>"
  from adv d nneg have sub: "advanceFrame_submit E outFence ?s5 = Inr (NO_ERROR E, s')"
    unfolding adv' by simp
  from dequeueBuffer_Source_frame [OF o3 d] nneg obtain bufs owners w cs where
    eqs: "sslot' = sslot" "outFence = fence"
    and s4: "s4 = s3\<lparr>world := w, calls := calls s3 @ cs, mProducerSlotSource := owners,
                    mProducerBuffers := bufs\<rparr>"
    and cs: "cs = [Src_dequeueBuffer SOURCE_SINK (mSinkBufferWidth s3) (mSinkBufferHeight s3)
                         0 (mProducerUsage s3)]
                \<or> cs = [Src_dequeueBuffer SOURCE_SINK (mSinkBufferWidth s3) (mSinkBufferHeight s3)
                           0 (mProducerUsage s3), Src_requestBuffer SOURCE_SINK sslot']"
    and range: "0 \<le> mapSource2ProducerSlot E SOURCE_SINK sslot'"
    by blast
  have s5_f: "mCompositionType ?s5 = COMPOSITION_HWC" "0 \<le> mOutputProducerSlot ?s5"
    "calls ?s5 = calls s @ cs" "mDisplayId ?s5 = mDisplayId s"
    "mOutputProducerSlot ?s5 = mapSource2ProducerSlot E SOURCE_SINK sslot"
    using range by (simp_all add: s4 s3_f eqs)
  from advanceFrame_submit_HWC [OF s5_f(1) sub s5_f(2)]
  have "mFbProducerSlot s' = mOutputProducerSlot ?s5"
    "mOutputProducerSlot s' = mOutputProducerSlot ?s5"
    "mFbFence s' = outFence"
    "mProducerBuffers s' = mProducerBuffers ?s5"
    "calls s' = calls ?s5
            @ [Hwc_fbPost (mDisplayId ?s5) outFence
                 (mProducerBuffers ?s5 (mOutputProducerSlot ?s5)),
               Hwc_setOutputBuffer (mDisplayId ?s5) outFence
                 (mProducerBuffers ?s5 (mOutputProducerSlot ?s5))]"
    by blast+
  with s5_f(3,4,5) eqs sink_dequeue_calls [OF cs] show ?thesis
    by auto
qed


theorem advanceFrame_HWC_one_buffer_witness:
  "0 \<le> mDisplayId hwc_prepared_vds
   \<and> mCompositionType hwc_prepared_vds = COMPOSITION_HWC
   \<and> \<not> NO_ERROR android_env <s 0
   \<and> (\<exists>s'. advanceFrame android_env hwc_prepared_vds = Inr (NO_ERROR android_env, s')
          \<and> mOutputProducerSlot s' = 0 \<and> mFbProducerSlot s' = 0
          \<and> mFbFence s' = Some (Fence 1))"
proof -
  obtain s' where adv: "advanceFrame android_env hwc_prepared_vds = Inr (NO_ERROR android_env, s')"
    using hwc_prepared_run by (simp add: android_env_def)
  have h: "0 \<le> mDisplayId hwc_prepared_vds"
    "mCompositionType hwc_prepared_vds = COMPOSITION_HWC"
    "\<not> NO_ERROR android_env <s 0"
    "sink_dequeue_answer android_env hwc_prepared_vds = ((0, 0, Some (Fence 1)), ())"
    by (simp_all add: hwc_prepared_vds_def idle_vds_def sink_dequeue_answer_def android_env_def)
  from advanceFrame_HWC_one_buffer [OF h(1) h(2) adv h(3) h(4)] adv h(1,2,3) show ?thesis
    by (simp add: mapSource2ProducerSlot_def)
qed

subsection \<open>onFrameCommitted resets the frame\<close>

lemma release_scratch_dbg:
  "release_scratch E fbFence s = Inr s' \<Longrightarrow> mDbgState s' = mDbgState s"
  by (auto simp: release_scratch_def Let_def split: if_splits)

lemma release_scratch_returns:
  "(mCompositionType s = COMPOSITION_MIXED \<longrightarrow> mFbProducerSlot s < int (NUM_BUFFER_SLOTS E))
   \<Longrightarrow> \<exists>s'. release_scratch E fbFence s = Inr s'"
  by (auto simp: release_scratch_def Let_def)

lemma queue_sink_dbg: "mDbgState (queue_sink E s) = mDbgState s"
  by (simp add: queue_sink_def updateQueueBufferOutput_def Let_def split: prod.splits)

text \<open>
  Claim C7. For a display with a hardware composer id: whenever \<open>onFrameCommitted\<close>
  returns, the composition type is \<open>COMPOSITION_UNKNOWN\<close>, the sink buffer width and
  height are 0, the framebuffer fence is \<open>NO_FENCE\<close>, both producer slots are -1 and
  the state is \<open>DBG_STATE_IDLE\<close>; and it does return unless a Mixed frame carries a
  framebuffer slot beyond the buffer table. This holds from every state, so after an
  \<open>advanceFrame\<close> that succeeded and after one that bailed out with \<open>NO_MEMORY\<close>.
\<close>
theorem onFrameCommitted_resets:
  assumes disp: "0 \<le> mDisplayId s"
  shows "(\<forall>s'. onFrameCommitted E s = Inr s' \<longrightarrow>
            mCompositionType s' = COMPOSITION_UNKNOWN
          \<and> mSinkBufferWidth s' = 0 \<and> mSinkBufferHeight s' = 0
          \<and> mFbFence s' = Some NO_FENCE
          \<and> mFbProducerSlot s' = - 1 \<and> mOutputProducerSlot s' = - 1
          \<and> mDbgState s' = DBG_STATE_IDLE)
       \<and> ((mCompositionType s = COMPOSITION_MIXED \<longrightarrow>
              mFbProducerSlot s < int (NUM_BUFFER_SLOTS E))
            \<longrightarrow> (\<exists>s'. onFrameCommitted E s = Inr s'))"
proof -
  define s2 where
    "s2 = (VDS_LOGW_IF (mDbgState s \<noteq> DBG_STATE_HWC)
             (LOGW_onFrameCommitted (mDbgState s)) s)\<lparr>mDbgState := DBG_STATE_IDLE\<rparr>"
  obtain fbFence w1 where g: "hwc_getAndResetReleaseFence E (mDisplayId s2) (world s2) = (fbFence, w1)"
    by (cases "hwc_getAndResetReleaseFence E (mDisplayId s2) (world s2)")
  define s2' where
    "s2' = s2\<lparr>world := w1,
               calls := calls s2 @ [Hwc_getAndResetReleaseFence (mDisplayId s2)]\<rparr>"
  have unfolded: "onFrameCommitted E s =
      (case release_scratch E fbFence s2' of
         Inl f \<Rightarrow> Inl f
       | Inr s3 \<Rightarrow> Inr (resetPerFrameState (queue_sink E s3)))"
    using disp g unfolding s2'_def s2_def
    by (simp add: onFrameCommitted_def Let_def)
  have s2'_f: "mDbgState s2' = DBG_STATE_IDLE" "mCompositionType s2' = mCompositionType s"
    "mFbProducerSlot s2' = mFbProducerSlot s"
    by (simp_all add: s2'_def s2_def)
  have part1: "mCompositionType s' = COMPOSITION_UNKNOWN
          \<and> mSinkBufferWidth s' = 0 \<and> mSinkBufferHeight s' = 0
          \<and> mFbFence s' = Some NO_FENCE
          \<and> mFbProducerSlot s' = - 1 \<and> mOutputProducerSlot s' = - 1
          \<and> mDbgState s' = DBG_STATE_IDLE" if r: "onFrameCommitted E s = Inr s'" for s'
  proof -
    from r obtain s3 where s3: "release_scratch E fbFence s2' = Inr s3"
      and s': "s' = resetPerFrameState (queue_sink E s3)"
      unfolding unfolded by (auto split: sum.splits)
    from release_scratch_dbg [OF s3] s2'_f have "mDbgState (queue_sink E s3) = DBG_STATE_IDLE"
      by (simp add: queue_sink_dbg)
    then show ?thesis
      by (simp add: s' resetPerFrameState_def)
  qed
  have part2: "\<exists>s'. onFrameCommitted E s = Inr s'"
    if "mCompositionType s = COMPOSITION_MIXED \<longrightarrow> mFbProducerSlot s < int (NUM_BUFFER_SLOTS E)"
  proof -
    from that s2'_f obtain s3 where "release_scratch E fbFence s2' = Inr s3"
      using release_scratch_returns [of s2' E fbFence] by auto
    then show ?thesis
      unfolding unfolded by simp
  qed
  from part1 part2 show ?thesis by blast
qed


theorem onFrameCommitted_resets_witness:
  "(\<exists>s1 s2. advanceFrame android_env mixed_prepared_vds = Inr (NO_MEMORY android_env, s1)
       \<and> 0 \<le> mDisplayId s1
       \<and> onFrameCommitted android_env s1 = Inr s2
       \<and> mCompositionType s2 = COMPOSITION_UNKNOWN
       \<and> mSinkBufferWidth s2 = 0 \<and> mSinkBufferHeight s2 = 0
       \<and> mFbFence s2 = Some NO_FENCE
       \<and> mFbProducerSlot s2 = - 1 \<and> mOutputProducerSlot s2 = - 1
       \<and> mDbgState s2 = DBG_STATE_IDLE)
   \<and> (\<exists>s1 s2. advanceFrame android_env hwc_prepared_vds = Inr (NO_ERROR android_env, s1)
       \<and> 0 \<le> mDisplayId s1
       \<and> onFrameCommitted android_env s1 = Inr s2
       \<and> mCompositionType s2 = COMPOSITION_UNKNOWN
       \<and> mSinkBufferWidth s2 = 0 \<and> mSinkBufferHeight s2 = 0
       \<and> mFbFence s2 = Some NO_FENCE
       \<and> mFbProducerSlot s2 = - 1 \<and> mOutputProducerSlot s2 = - 1
       \<and> mDbgState s2 = DBG_STATE_IDLE)"
proof -
  obtain a1 where a: "advanceFrame android_env mixed_prepared_vds = Inr (NO_MEMORY android_env, a1)"
    and ad: "0 \<le> mDisplayId a1"
    and ar: "mCompositionType a1 = COMPOSITION_MIXED \<longrightarrow>
               mFbProducerSlot a1 < int (NUM_BUFFER_SLOTS android_env)"
    using mixed_prepared_run by (simp add: android_env_def mixed_prepared_vds_def idle_vds_def)
  obtain b1 where b: "advanceFrame android_env hwc_prepared_vds = Inr (NO_ERROR android_env, b1)"
    and bd: "0 \<le> mDisplayId b1"
    and br: "mCompositionType b1 = COMPOSITION_MIXED \<longrightarrow>
               mFbProducerSlot b1 < int (NUM_BUFFER_SLOTS android_env)"
    using hwc_prepared_run by (simp add: android_env_def hwc_prepared_vds_def idle_vds_def)
  from onFrameCommitted_resets [OF ad, of android_env] ar
  have "\<exists>s2. onFrameCommitted android_env a1 = Inr s2
       \<and> mCompositionType s2 = COMPOSITION_UNKNOWN
       \<and> mSinkBufferWidth s2 = 0 \<and> mSinkBufferHeight s2 = 0
       \<and> mFbFence s2 = Some NO_FENCE
       \<and> mFbProducerSlot s2 = - 1 \<and> mOutputProducerSlot s2 = - 1
       \<and> mDbgState s2 = DBG_STATE_IDLE"
    by blast
  moreover
  from onFrameCommitted_resets [OF bd, of android_env] br
  have "\<exists>s2. onFrameCommitted android_env b1 = Inr s2
       \<and> mCompositionType s2 = COMPOSITION_UNKNOWN
       \<and> mSinkBufferWidth s2 = 0 \<and> mSinkBufferHeight s2 = 0
       \<and> mFbFence s2 = Some NO_FENCE
       \<and> mFbProducerSlot s2 = - 1 \<and> mOutputProducerSlot s2 = - 1
       \<and> mDbgState s2 = DBG_STATE_IDLE"
    by blast
  ultimately show ?thesis
    using a ad b bd by blast
qed


subsection \<open>queueBuffer on a Mixed frame when the pool hands back another slot\<close>




subsection \<open>The framebuffer source\<close>

lemma dequeueBuffer_calls:
  assumes d: "dequeueBuffer E pslot0 fence0 w h format usage s = Inr (r, p, f, s')"
  shows "\<exists>cs. calls s' = calls s @ cs \<and> cs \<noteq> []
           \<and> (\<forall>c \<in> set cs.
                  call_source c = Some (fbSourceForCompositionType (mCompositionType s)))"
proof -
  define s2 where
    "s2 = (VDS_LOGW_IF (mDbgState s \<noteq> DBG_STATE_PREPARED) (LOGW_dequeueBuffer (mDbgState s)) s)
            \<lparr>mDbgState := DBG_STATE_GLES,
              mProducerUsage := usage OR GRALLOC_USAGE_HW_COMPOSER E\<rparr>"
  define source where "source = fbSourceForCompositionType (mCompositionType s2)"
  define s3 where
    "s3 = (if source = SOURCE_SINK
           then s2\<lparr>mSinkBufferWidth := w, mSinkBufferHeight := h\<rparr> else s2)"
  have source_eq: "source = fbSourceForCompositionType (mCompositionType s)"
    by (simp add: source_def s2_def)
  have s3_calls: "calls s3 = calls s"
    by (simp add: s3_def s2_def)
  have unfolded: "dequeueBuffer E pslot0 fence0 w h format usage s =
      (case dequeueBuffer_Source E source format fence0 s3 of
           Inl f \<Rightarrow> Inl f
         | Inr (result, sslot, fence, s4) \<Rightarrow>
             Inr (result,
                  (if \<not> result <s 0 then mapSource2ProducerSlot E source sslot else pslot0),
                  fence, s4))"
    unfolding s3_def source_def s2_def dequeueBuffer_def Let_def ..
  from d obtain sslot where ds: "dequeueBuffer_Source E source format fence0 s3 = Inr (r, sslot, f, s')"
    unfolding unfolded by (auto split: sum.splits)
  obtain dr ds' df w1 where o: "src_dequeueBuffer E source fence0 (mSinkBufferWidth s3)
      (mSinkBufferHeight s3) format (mProducerUsage s3) (world s3) = ((dr, ds', df), w1)"
    by (metis prod.exhaust)
  from dequeueBuffer_Source_frame [OF o ds] obtain cs where
    "calls s' = calls s3 @ cs"
    "cs = [Src_dequeueBuffer source (mSinkBufferWidth s3) (mSinkBufferHeight s3)
                         format (mProducerUsage s3)]
     \<or> cs = [Src_dequeueBuffer source (mSinkBufferWidth s3) (mSinkBufferHeight s3)
                           format (mProducerUsage s3), Src_requestBuffer source sslot]"
    by auto
  then show ?thesis
    unfolding s3_calls source_eq
    by (auto simp: call_source_def)
qed

text \<open>
  Claim C5. \<open>fbSourceForCompositionType\<close> takes the composition type and nothing else;
  it gives the scratch pool exactly for \<open>COMPOSITION_MIXED\<close> and the sink for the
  three other types. Every call the producer-facing \<open>dequeueBuffer\<close> makes goes to the
  source it gives for the current composition type, and so does the one call
  \<open>cancelBuffer\<close> makes.
\<close>
theorem fbSource_depends_on_mode_only:
  "(fbSourceForCompositionType type = SOURCE_SCRATCH \<longleftrightarrow> type = COMPOSITION_MIXED)
   \<and> fbSourceForCompositionType COMPOSITION_UNKNOWN = SOURCE_SINK
   \<and> fbSourceForCompositionType COMPOSITION_GLES = SOURCE_SINK
   \<and> fbSourceForCompositionType COMPOSITION_HWC = SOURCE_SINK
   \<and> (\<forall>r p f s'. dequeueBuffer E pslot0 fence0 w h format usage s = Inr (r, p, f, s') \<longrightarrow>
         (\<exists>cs. calls s' = calls s @ cs \<and> cs \<noteq> []
            \<and> (\<forall>c \<in> set cs.
                   call_source c = Some (fbSourceForCompositionType (mCompositionType s)))))
   \<and> calls (cancelBuffer E pslot fence s) = calls s
        @ [Src_cancelBuffer (fbSourceForCompositionType (mCompositionType s))
             (mapProducer2SourceSlot E (fbSourceForCompositionType (mCompositionType s)) pslot)
             fence]"
proof -
  have "calls (cancelBuffer E pslot fence s) = calls s
        @ [Src_cancelBuffer (fbSourceForCompositionType (mCompositionType s))
             (mapProducer2SourceSlot E (fbSourceForCompositionType (mCompositionType s)) pslot)
             fence]"
    by (simp add: cancelBuffer_def Let_def)
  moreover have "fbSourceForCompositionType type = SOURCE_SCRATCH \<longleftrightarrow> type = COMPOSITION_MIXED"
    by (simp add: fbSourceForCompositionType_def)
  ultimately show ?thesis
    using dequeueBuffer_calls [of E pslot0 fence0 w h format usage s]
    by (simp add: fbSourceForCompositionType_def)
qed

theorem fbSource_depends_on_mode_only_witness:
  "\<exists>r p f s'. dequeueBuffer android_env 0 None 640 480 1 0 mixed_prepared_vds = Inr (r, p, f, s')
      \<and> p = 31
      \<and> calls s' = [Src_dequeueBuffer SOURCE_SCRATCH 0 0 1 2048,
                     Src_requestBuffer SOURCE_SCRATCH 0]
      \<and> (\<exists>cs. calls s' = calls mixed_prepared_vds @ cs \<and> cs \<noteq> []
            \<and> (\<forall>c \<in> set cs. call_source c = Some SOURCE_SCRATCH))"
proof -
  have run: "\<exists>r f s'. dequeueBuffer android_env 0 None 640 480 1 0 mixed_prepared_vds
                 = Inr (r, 31, f, s')
      \<and> calls s' = [Src_dequeueBuffer SOURCE_SCRATCH 0 0 1 2048,
                     Src_requestBuffer SOURCE_SCRATCH 0]"
    by (simp add: dequeueBuffer_def dequeue_defs fbSourceForCompositionType_def VDS_LOGW_IF_def
        android_env_def mixed_prepared_vds_def idle_vds_def Let_def word_sless_alt)
  then obtain r f s' where
    d: "dequeueBuffer android_env 0 None 640 480 1 0 mixed_prepared_vds = Inr (r, 31, f, s')"
    and c: "calls s' = [Src_dequeueBuffer SOURCE_SCRATCH 0 0 1 2048,
                     Src_requestBuffer SOURCE_SCRATCH 0]"
    by blast
  from fbSource_depends_on_mode_only
         [of COMPOSITION_MIXED android_env 0 None 640 480 1 0 mixed_prepared_vds 0 None]
  have "\<forall>r p f s'. dequeueBuffer android_env 0 None 640 480 1 0 mixed_prepared_vds
            = Inr (r, p, f, s') \<longrightarrow>
         (\<exists>cs. calls s' = calls mixed_prepared_vds @ cs \<and> cs \<noteq> []
            \<and> (\<forall>c \<in> set cs. call_source c
                  = Some (fbSourceForCompositionType (mCompositionType mixed_prepared_vds))))"
    by blast
  with d have "\<exists>cs. calls s' = calls mixed_prepared_vds @ cs \<and> cs \<noteq> []
            \<and> (\<forall>c \<in> set cs. call_source c = Some SOURCE_SCRATCH)"
    by (simp add: fbSourceForCompositionType_def mixed_prepared_vds_def)
  with d c show ?thesis by blast
qed


subsection \<open>Dequeuing a slot that the other source had\<close>







subsection \<open>A release of all buffers asked for by the scratch pool\<close>

text \<open>
  Claim C2, evaluated where the code departs from it. The scratch pool owns the unified
  slots 31 and 30 and answers a dequeue with \<open>RELEASE_ALL_BUFFERS\<close> for its slot 0
  (unified slot 31). Line 247 compares \<open>mProducerSlotSource & (1u << i)\<close> with
  \<open>sourceBit\<close>, which is \<open>1u << 31\<close> here and not \<open>1u << i\<close>: slot 31 is cleared,
  slot 30 is still marked as the scratch pool's and keeps its cached buffer.
\<close>
theorem release_all_keeps_scratch_buffer:
  "\<exists>r s'. dequeueBuffer_Source release_all_env SOURCE_SCRATCH 1 None two_scratch_vds
             = Inr (r, 0, Some (Fence 1), s')
      \<and> r AND RELEASE_ALL_BUFFERS release_all_env \<noteq> 0
      \<and> slot_owner_is release_all_env (mProducerSlotSource two_scratch_vds) 30 SOURCE_SCRATCH
      \<and> slot_owner_is release_all_env (mProducerSlotSource s') 30 SOURCE_SCRATCH
      \<and> mProducerBuffers two_scratch_vds 30 = Some 101
      \<and> mProducerBuffers s' 30 = Some 101
      \<and> mProducerBuffers s' 31 = None"
proof -
  have N: "NUM_BUFFER_SLOTS release_all_env \<le> 32"
    by (simp add: release_all_env_def android_env_def)
  have env: "NUM_BUFFER_SLOTS release_all_env = 32"
    "BUFFER_NEEDS_REALLOCATION release_all_env = 1"
    "RELEASE_ALL_BUFFERS release_all_env = 2"
    "Source_u32 release_all_env = (\<lambda>source. if source = SOURCE_SCRATCH then 1 else 0)"
    "src_dequeueBuffer release_all_env
       = (\<lambda>source fence0 w h format usage u. ((2, 0, Some (Fence 1)), u))"
    by (simp_all add: release_all_env_def android_env_def)
  show ?thesis
    by (simp add: dequeue_defs release_all_loop_result [OF N] env
        two_scratch_vds_def idle_vds_def Let_def word_sless_alt)
qed


end
